theory Spec2Isabelle
  imports Complex_Main
begin

section \<open>The Task Processor (generator/internal/task\_processor.go)\<close>

subsection \<open>Data\<close>

text \<open>
  The errors the store client hands back. The processor tells three kinds apart: a value of
  type \<open>bbserrors.TaskStateTransitionError\<close> (tested with a type assertion, so its fields
  play no part), and the two sentinel values \<open>ErrTaskRunningOnDifferentCell\<close> and
  \<open>ErrStoreResourceNotFound\<close> (tested with \<open>==\<close>). Every other error value, of the store
  or of the container delegate, is \<open>OtherError\<close> with its message.
\<close>

datatype error =
    TaskStateTransitionError
  | ErrTaskRunningOnDifferentCell
  | ErrStoreResourceNotFound
  | OtherError string

text \<open>
  \<open>executor.State\<close>: the five states \<open>Process\<close> switches on. The declaration of the type
  is in package executor; every value of it that is none of the five is \<open>StateOther\<close>.
\<close>

datatype State =
    StateReserved
  | StateInitializing
  | StateCreated
  | StateRunning
  | StateCompleted
  | StateOther string

record ContainerRunResult =
  Failed :: bool
  FailureReason :: string

record Container =
  Guid :: string
  State :: State
  RunResult :: ContainerRunResult
  Tags :: "string \<rightharpoonup> string"

text \<open>Reading a Go map at a key it does not hold gives the zero value, the empty string.\<close>

definition tagLookup :: "(string \<rightharpoonup> string) \<Rightarrow> string \<Rightarrow> string" where
  "tagLookup m k = (case m k of None \<Rightarrow> [] | Some v \<Rightarrow> v)"

definition TaskCompletionReasonMissingContainer :: string where
  "TaskCompletionReasonMissingContainer = ''task container does not exist''"

definition TaskCompletionReasonFailedToRunContainer :: string where
  "TaskCompletionReasonFailedToRunContainer = ''failed to run container''"

definition TaskCompletionReasonInvalidTransition :: string where
  "TaskCompletionReasonInvalidTransition = ''invalid state transition''"

definition TaskCompletionReasonFailedToFetchResult :: string where
  "TaskCompletionReasonFailedToFetchResult = ''failed to fetch result''"

subsection \<open>The collaborators\<close>

text \<open>
  \<open>bbs.RepBBS\<close> and \<open>ContainerDelegate\<close> are interfaces: the processor only calls them.
  They are parameters of the model, functions on a world \<open>'w\<close> that nothing is assumed about:
  each call takes the world it finds and gives back its answer and the world it leaves.
  An \<open>error option\<close> is Go's \<open>error\<close>, \<open>None\<close> being \<open>nil\<close>.
\<close>

record 'w RepBBS =
  StartTask :: "string \<Rightarrow> string \<Rightarrow> 'w \<Rightarrow> (bool \<times> error option) \<times> 'w"
  CompleteTask :: "string \<Rightarrow> string \<Rightarrow> bool \<Rightarrow> string \<Rightarrow> string \<Rightarrow> 'w \<Rightarrow> error option \<times> 'w"
  FailTask :: "string \<Rightarrow> string \<Rightarrow> 'w \<Rightarrow> error option \<times> 'w"

record 'w ContainerDelegate =
  RunContainer :: "string \<Rightarrow> 'w \<Rightarrow> bool \<times> 'w"
  DeleteContainer :: "string \<Rightarrow> 'w \<Rightarrow> 'w"
  FetchContainerResultFile :: "string \<Rightarrow> string \<Rightarrow> 'w \<Rightarrow> (string \<times> error option) \<times> 'w"

record 'w taskProcessor =
  bbs :: "'w RepBBS"
  containerDelegate :: "'w ContainerDelegate"
  cellID :: string

subsection \<open>Effects\<close>

text \<open>
  Every call the processor makes on a collaborator, and every line it logs, is an event.
  A run threads the world through the calls and appends each event to the trace, in the
  order the code makes them.
\<close>

datatype event =
    LogDebug string
  | LogInfo string
  | LogError string error
  | StartTaskCall string string
  | CompleteTaskCall string string bool string string
  | FailTaskCall string string
  | RunContainerCall string
  | DeleteContainerCall string
  | FetchContainerResultFileCall string string

record 'w run =
  trace :: "event list"
  world :: "'w"

definition emit :: "event \<Rightarrow> 'w run \<Rightarrow> 'w run" where
  "emit e s = s\<lparr>trace := trace s @ [e]\<rparr>"

definition callStartTask ::
  "'w taskProcessor \<Rightarrow> string \<Rightarrow> 'w run \<Rightarrow> (bool \<times> error option) \<times> 'w run" where
  "callStartTask p guid s =
     (case StartTask (bbs p) guid (cellID p) (world s) of
        (r, w) \<Rightarrow> (r, \<lparr>trace = trace s @ [StartTaskCall guid (cellID p)], world = w\<rparr>))"

definition callCompleteTask ::
  "'w taskProcessor \<Rightarrow> string \<Rightarrow> bool \<Rightarrow> string \<Rightarrow> string \<Rightarrow> 'w run \<Rightarrow> error option \<times> 'w run" where
  "callCompleteTask p guid failed reason result s =
     (case CompleteTask (bbs p) guid (cellID p) failed reason result (world s) of
        (r, w) \<Rightarrow>
          (r, \<lparr>trace = trace s @ [CompleteTaskCall guid (cellID p) failed reason result],
               world = w\<rparr>))"

definition callFailTask ::
  "'w taskProcessor \<Rightarrow> string \<Rightarrow> string \<Rightarrow> 'w run \<Rightarrow> error option \<times> 'w run" where
  "callFailTask p guid reason s =
     (case FailTask (bbs p) guid reason (world s) of
        (r, w) \<Rightarrow> (r, \<lparr>trace = trace s @ [FailTaskCall guid reason], world = w\<rparr>))"

definition callRunContainer :: "'w taskProcessor \<Rightarrow> string \<Rightarrow> 'w run \<Rightarrow> bool \<times> 'w run" where
  "callRunContainer p guid s =
     (case RunContainer (containerDelegate p) guid (world s) of
        (r, w) \<Rightarrow> (r, \<lparr>trace = trace s @ [RunContainerCall guid], world = w\<rparr>))"

definition callDeleteContainer :: "'w taskProcessor \<Rightarrow> string \<Rightarrow> 'w run \<Rightarrow> 'w run" where
  "callDeleteContainer p guid s =
     \<lparr>trace = trace s @ [DeleteContainerCall guid],
      world = DeleteContainer (containerDelegate p) guid (world s)\<rparr>"

definition callFetchContainerResultFile ::
  "'w taskProcessor \<Rightarrow> string \<Rightarrow> string \<Rightarrow> 'w run \<Rightarrow> (string \<times> error option) \<times> 'w run" where
  "callFetchContainerResultFile p guid path s =
     (case FetchContainerResultFile (containerDelegate p) guid path (world s) of
        (r, w) \<Rightarrow>
          (r, \<lparr>trace = trace s @ [FetchContainerResultFileCall guid path], world = w\<rparr>))"

subsection \<open>The processor\<close>

definition failTask :: "'w taskProcessor \<Rightarrow> string \<Rightarrow> string \<Rightarrow> 'w run \<Rightarrow> 'w run" where
  "failTask p guid reason s =
     (case callFailTask p guid reason (emit (LogInfo ''failing-task'') s) of
        (Some err, s1) \<Rightarrow> emit (LogError ''failed-failing-task'' err) s1
      | (None, s1) \<Rightarrow> emit (LogInfo ''succeeded-failing-task'') s1)"

definition startTask :: "'w taskProcessor \<Rightarrow> string \<Rightarrow> 'w run \<Rightarrow> bool \<times> 'w run" where
  "startTask p guid s =
     (case callStartTask p guid (emit (LogInfo ''starting-task'') s) of
        ((changed, Some err), s1) \<Rightarrow>
          (let s2 = emit (LogError ''failed-starting-task'' err) s1;
               s3 = (if err = TaskStateTransitionError then callDeleteContainer p guid s2
                     else if err = ErrTaskRunningOnDifferentCell then callDeleteContainer p guid s2
                     else if err = ErrStoreResourceNotFound then callDeleteContainer p guid s2
                     else s2)
           in (False, s3))
      | ((changed, None), s1) \<Rightarrow>
          (changed,
           if changed then emit (LogInfo ''succeeded-starting-task'') s1
           else emit (LogInfo ''task-already-started'') s1))"

text \<open>
  \<open>resultFileTag\<close> is the constant \<open>rep.ResultFileTag\<close>, declared in package rep: the key
  under which the container's tags name the result file. It is a parameter here.
  \<open>finish\<close> is the rest of the function from "completing-task" on, which the code reaches
  with the fetched result or, for a failed run, with the zero value of \<open>result\<close>; the
  failed fetch returns before it.
\<close>

definition completeTask :: "string \<Rightarrow> 'w taskProcessor \<Rightarrow> Container \<Rightarrow> 'w run \<Rightarrow> 'w run" where
  "completeTask resultFileTag p container s =
     (let finish = (\<lambda>result s0.
            case callCompleteTask p (Guid container) (Failed (RunResult container))
                   (FailureReason (RunResult container)) result
                   (emit (LogInfo ''completing-task'') s0) of
              (Some err, s1) \<Rightarrow>
                (let s2 = emit (LogError ''failed-completing-task'' err) s1
                 in if err = TaskStateTransitionError
                    then failTask p (Guid container) TaskCompletionReasonInvalidTransition s2
                    else s2)
            | (None, s1) \<Rightarrow> emit (LogInfo ''succeeded-completing-task'') s1)
      in if \<not> Failed (RunResult container)
         then (case callFetchContainerResultFile p (Guid container)
                      (tagLookup (Tags container) resultFileTag) s of
                 ((result, Some err), s1) \<Rightarrow>
                   failTask p (Guid container) TaskCompletionReasonFailedToFetchResult s1
               | ((result, None), s1) \<Rightarrow> finish result s1)
         else finish [] s)"

definition processActiveContainer :: "'w taskProcessor \<Rightarrow> Container \<Rightarrow> 'w run \<Rightarrow> 'w run" where
  "processActiveContainer p container s =
     (case startTask p (Guid container) s of
        (False, s1) \<Rightarrow> s1
      | (True, s1) \<Rightarrow>
          (case callRunContainer p (Guid container) s1 of
             (False, s2) \<Rightarrow>
               failTask p (Guid container) TaskCompletionReasonFailedToRunContainer s2
           | (True, s2) \<Rightarrow> s2))"

definition processCompletedContainer ::
  "string \<Rightarrow> 'w taskProcessor \<Rightarrow> Container \<Rightarrow> 'w run \<Rightarrow> 'w run" where
  "processCompletedContainer resultFileTag p container s =
     callDeleteContainer p (Guid container) (completeTask resultFileTag p container s)"

definition Process :: "string \<Rightarrow> 'w taskProcessor \<Rightarrow> Container \<Rightarrow> 'w run \<Rightarrow> 'w run" where
  "Process resultFileTag p container s =
     (let s0 = emit (LogDebug ''starting'') s;
          s1 = (case State container of
                  StateReserved \<Rightarrow>
                    processActiveContainer p container
                      (emit (LogDebug ''processing-reserved-container'') s0)
                | StateInitializing \<Rightarrow>
                    processActiveContainer p container
                      (emit (LogDebug ''processing-initializing-container'') s0)
                | StateCreated \<Rightarrow>
                    processActiveContainer p container
                      (emit (LogDebug ''processing-created-container'') s0)
                | StateRunning \<Rightarrow>
                    processActiveContainer p container
                      (emit (LogDebug ''processing-running-container'') s0)
                | StateCompleted \<Rightarrow>
                    processCompletedContainer resultFileTag p container
                      (emit (LogDebug ''processing-completed-container'') s0)
                | StateOther other \<Rightarrow> s0)
      in emit (LogDebug ''finished'') s1)"

text \<open>What one call of \<open>Process\<close> does, started in world \<open>w\<close>: the events, in order.\<close>

definition events :: "string \<Rightarrow> 'w taskProcessor \<Rightarrow> Container \<Rightarrow> 'w \<Rightarrow> event list" where
  "events resultFileTag p container w =
     trace (Process resultFileTag p container \<lparr>trace = [], world = w\<rparr>)"

subsection \<open>Reading a trace\<close>

fun isDelete :: "event \<Rightarrow> bool" where
  "isDelete (DeleteContainerCall g) = True"
| "isDelete e = False"

fun isRun :: "event \<Rightarrow> bool" where
  "isRun (RunContainerCall g) = True"
| "isRun e = False"

fun isFetch :: "event \<Rightarrow> bool" where
  "isFetch (FetchContainerResultFileCall g path) = True"
| "isFetch e = False"

fun isStoreCall :: "event \<Rightarrow> bool" where
  "isStoreCall (StartTaskCall g c) = True"
| "isStoreCall (CompleteTaskCall g c f r res) = True"
| "isStoreCall (FailTaskCall g r) = True"
| "isStoreCall e = False"

fun isLog :: "event \<Rightarrow> bool" where
  "isLog (LogDebug m) = True"
| "isLog (LogInfo m) = True"
| "isLog (LogError m e) = True"
| "isLog e = False"

definition isActive :: "State \<Rightarrow> bool" where
  "isActive st = (st = StateReserved \<or> st = StateInitializing \<or> st = StateCreated \<or> st = StateRunning)"

fun isComplete :: "event \<Rightarrow> bool" where
  "isComplete (CompleteTaskCall g c f r res) = True"
| "isComplete e = False"

text \<open>The calls of a trace: what is left when the log lines are taken out.\<close>

definition calls :: "event list \<Rightarrow> event list" where
  "calls t = filter (\<lambda>e. \<not> isLog e) t"

subsection \<open>Scripted collaborators\<close>

text \<open>
  A store and a delegate that answer every call from a script, and count the calls they
  receive in the world. They instantiate the theorems below at concrete inputs.
\<close>

record script =
  startAnswer :: "bool \<times> error option"
  completeAnswer :: "error option"
  failAnswer :: "error option"
  runAnswer :: bool
  fetchAnswer :: "string \<times> error option"

definition scripted :: "script \<Rightarrow> nat taskProcessor" where
  "scripted sc =
     \<lparr>bbs = \<lparr>StartTask = (\<lambda>g c n. (startAnswer sc, Suc n)),
              CompleteTask = (\<lambda>g c f r res n. (completeAnswer sc, Suc n)),
              FailTask = (\<lambda>g r n. (failAnswer sc, Suc n))\<rparr>,
      containerDelegate =
        \<lparr>RunContainer = (\<lambda>g n. (runAnswer sc, Suc n)),
         DeleteContainer = (\<lambda>g n. Suc n),
         FetchContainerResultFile = (\<lambda>g path n. (fetchAnswer sc, Suc n))\<rparr>,
      cellID = ''cell-1''\<rparr>"

definition allGood :: script where
  "allGood = \<lparr>startAnswer = (True, None), completeAnswer = None, failAnswer = None,
              runAnswer = True, fetchAnswer = (''42'', None)\<rparr>"

definition observed :: "State \<Rightarrow> bool \<Rightarrow> string \<Rightarrow> Container" where
  "observed st failed reason =
     \<lparr>Guid = ''task-guid-123'', State = st,
      RunResult = \<lparr>Failed = failed, FailureReason = reason\<rparr>,
      Tags = [''result-file'' \<mapsto> ''/tmp/result'']\<rparr>"

subsection \<open>Collaborators that keep a journal\<close>

text \<open>
  The trace is written by the processor. To tell what the collaborators themselves receive,
  \<open>recording p\<close> has the store and the delegate of \<open>p\<close> keep a journal: every function of
  theirs answers as it does in \<open>p\<close>, on the second component of the world, and notes the
  call it received, with the arguments it was given, in the first. \<open>asked\<close> is the journal
  after one call of \<open>Process\<close> started in world \<open>w\<close> with the journal empty.
\<close>

definition recording :: "'w taskProcessor \<Rightarrow> (event list \<times> 'w) taskProcessor" where
  "recording p =
     \<lparr>bbs =
        \<lparr>StartTask = (\<lambda>g cell jw.
            case StartTask (bbs p) g cell (snd jw) of
              (r, w) \<Rightarrow> (r, (fst jw @ [StartTaskCall g cell], w))),
         CompleteTask = (\<lambda>g cell failed reason res jw.
            case CompleteTask (bbs p) g cell failed reason res (snd jw) of
              (r, w) \<Rightarrow> (r, (fst jw @ [CompleteTaskCall g cell failed reason res], w))),
         FailTask = (\<lambda>g reason jw.
            case FailTask (bbs p) g reason (snd jw) of
              (r, w) \<Rightarrow> (r, (fst jw @ [FailTaskCall g reason], w)))\<rparr>,
      containerDelegate =
        \<lparr>RunContainer = (\<lambda>g jw.
            case RunContainer (containerDelegate p) g (snd jw) of
              (r, w) \<Rightarrow> (r, (fst jw @ [RunContainerCall g], w))),
         DeleteContainer = (\<lambda>g jw.
            (fst jw @ [DeleteContainerCall g], DeleteContainer (containerDelegate p) g (snd jw))),
         FetchContainerResultFile = (\<lambda>g path jw.
            case FetchContainerResultFile (containerDelegate p) g path (snd jw) of
              (r, w) \<Rightarrow> (r, (fst jw @ [FetchContainerResultFileCall g path], w)))\<rparr>,
      cellID = cellID p\<rparr>"

definition asked :: "string \<Rightarrow> 'w taskProcessor \<Rightarrow> Container \<Rightarrow> 'w \<Rightarrow> event list" where
  "asked resultFileTag p container w =
     fst (world (Process resultFileTag (recording p) container \<lparr>trace = [], world = ([], w)\<rparr>))"

text \<open>
  A run with the journal and a run without it go together when they have written the same
  trace, the worlds agree, and the journal holds the calls of the trace.
\<close>

definition coupled :: "(event list \<times> 'w) run \<Rightarrow> 'w run \<Rightarrow> bool" where
  "coupled sj s =
     (trace sj = trace s \<and> snd (world sj) = world s \<and> fst (world sj) = calls (trace s))"

section \<open>The Task Scheduler (task\_scheduler/task\_scheduler\_test.go)\<close>

subsection \<open>Data\<close>

text \<open>
  The task, as section 3 of the specification describes it: its guid, its placement tag (the
  stack), its resource request, its action graph, its log routing and its result-file tag.
  The field names are those of \<open>models.Task\<close> in the test where the test sets them. The
  action graph is opaque here: each action stands for its description.
\<close>

record LogConfig =
  LogGuid :: string
  SourceName :: string
  Index :: "int option"

record Task =
  TaskGuid :: string
  Stack :: string
  MemoryMB :: int
  DiskMB :: int
  CpuPercent :: real
  Actions :: "string list"
  Log :: LogConfig
  ResultFile :: string

record ContainerAllocationRequest =
  ReqMemoryMB :: int
  ReqDiskMB :: int
  ReqCpuPercent :: real
  ReqLog :: LogConfig

record apiContainer =
  ExecutorGuid :: string
  ContainerGuid :: string

subsection \<open>The collaborators\<close>

text \<open>
  The store and the container runtime as the scheduler uses them (section 6 of the
  specification), as parameters: functions on a world \<open>'w\<close> that nothing is assumed about.
  \<open>ClaimTask(guid, cellID)\<close> answers with an error or nil;
  \<open>AllocateContainer(guid, resourceRequest, tags)\<close> with a container and an error or nil;
  \<open>InitializeContainer(guid)\<close> with an error or nil. The delete answers with an error
  or nil as the test's client does; the scheduler does not look at it.
\<close>

record 'w SchedulerBBS =
  ClaimTask :: "string \<Rightarrow> string \<Rightarrow> 'w \<Rightarrow> error option \<times> 'w"

record 'w Client =
  AllocateContainer ::
    "string \<Rightarrow> ContainerAllocationRequest \<Rightarrow> (string \<times> string) list \<Rightarrow> 'w
       \<Rightarrow> (apiContainer \<times> error option) \<times> 'w"
  InitializeContainer :: "string \<Rightarrow> 'w \<Rightarrow> error option \<times> 'w"
  ClientDeleteContainer :: "string \<Rightarrow> 'w \<Rightarrow> error option \<times> 'w"

record 'w TaskScheduler =
  schedulerBBS :: "'w SchedulerBBS"
  client :: "'w Client"
  stack :: string
  schedulerCellID :: string

subsection \<open>Effects\<close>

datatype call =
    AllocateContainerCalled string ContainerAllocationRequest "(string \<times> string) list"
  | ClaimTaskCalled string string
  | InitializeContainerCalled string
  | DeleteContainerCalled string

record 'w attempt =
  made :: "call list"
  after :: "'w"

definition allocate ::
  "'w TaskScheduler \<Rightarrow> string \<Rightarrow> ContainerAllocationRequest \<Rightarrow> (string \<times> string) list
     \<Rightarrow> 'w attempt \<Rightarrow> (apiContainer \<times> error option) \<times> 'w attempt" where
  "allocate sch guid req tags s =
     (case AllocateContainer (client sch) guid req tags (after s) of
        (r, w) \<Rightarrow> (r, \<lparr>made = made s @ [AllocateContainerCalled guid req tags], after = w\<rparr>))"

definition claim ::
  "'w TaskScheduler \<Rightarrow> string \<Rightarrow> string \<Rightarrow> 'w attempt \<Rightarrow> error option \<times> 'w attempt" where
  "claim sch guid owner s =
     (case ClaimTask (schedulerBBS sch) guid owner (after s) of
        (r, w) \<Rightarrow> (r, \<lparr>made = made s @ [ClaimTaskCalled guid owner], after = w\<rparr>))"

definition initialize ::
  "'w TaskScheduler \<Rightarrow> string \<Rightarrow> 'w attempt \<Rightarrow> error option \<times> 'w attempt" where
  "initialize sch guid s =
     (case InitializeContainer (client sch) guid (after s) of
        (r, w) \<Rightarrow> (r, \<lparr>made = made s @ [InitializeContainerCalled guid], after = w\<rparr>))"

definition delete :: "'w TaskScheduler \<Rightarrow> string \<Rightarrow> 'w attempt \<Rightarrow> 'w attempt" where
  "delete sch guid s =
     \<lparr>made = made s @ [DeleteContainerCalled guid],
      after = snd (ClientDeleteContainer (client sch) guid (after s))\<rparr>"

subsection \<open>One admission attempt\<close>

text \<open>
  Modelled from the spec: the scheduler's implementation (package task\_scheduler) is not
  among the sources; only its test is. The attempt follows section 4.1 of the specification
  step by step. (1) A task whose placement tag is not this cell's is ignored. (2) A container
  is allocated for the task's guid with the task's resource request and log routing, tagged
  with the task's result-file tag (under the key \<open>resultFileTag\<close>, the constant
  \<open>rep.ResultFileTag\<close>, a parameter here); a failed allocation ends the attempt. (3) The
  task is claimed for this cell; a failed claim, of any kind, deletes the container just
  allocated. (4) The container is initialized; a failed initialization, of any kind, deletes
  the container. (5) After a successful initialization the attempt ends: no start and no run
  call is made.

  On step 5 the repository's test of the scheduler says otherwise: it waits for a run request
  on the executor and finds the task started in the store by then, and it waits for a delete
  when StartTask fails. The model follows the specification.
\<close>

definition admitTask ::
  "string \<Rightarrow> 'w TaskScheduler \<Rightarrow> Task \<Rightarrow> 'w attempt \<Rightarrow> 'w attempt" where
  "admitTask resultFileTag sch task s =
     (if Stack task \<noteq> stack sch then s
      else
        case allocate sch (TaskGuid task)
               \<lparr>ReqMemoryMB = MemoryMB task, ReqDiskMB = DiskMB task,
                ReqCpuPercent = CpuPercent task, ReqLog = Log task\<rparr>
               [(resultFileTag, ResultFile task)] s of
          ((container, Some err), s1) \<Rightarrow> s1
        | ((container, None), s1) \<Rightarrow>
            (case claim sch (TaskGuid task) (schedulerCellID sch) s1 of
               (Some err, s2) \<Rightarrow> delete sch (TaskGuid task) s2
             | (None, s2) \<Rightarrow>
                 (case initialize sch (TaskGuid task) s2 of
                    (Some err, s3) \<Rightarrow> delete sch (TaskGuid task) s3
                  | (None, s3) \<Rightarrow> s3)))"

text \<open>The calls of one attempt started in world \<open>w\<close>, and the world it leaves.\<close>

definition attempt :: "string \<Rightarrow> 'w TaskScheduler \<Rightarrow> Task \<Rightarrow> 'w \<Rightarrow> 'w attempt" where
  "attempt resultFileTag sch task w = admitTask resultFileTag sch task \<lparr>made = [], after = w\<rparr>"

fun isStoreCalled :: "call \<Rightarrow> bool" where
  "isStoreCalled (ClaimTaskCalled g owner) = True"
| "isStoreCalled c = False"

fun isDeleteCalled :: "call \<Rightarrow> bool" where
  "isDeleteCalled (DeleteContainerCalled g) = True"
| "isDeleteCalled c = False"

subsection \<open>The doubles of the test\<close>

text \<open>
  The test drives the scheduler with a fake store and a fake executor client. The fake store
  keeps the claimed tasks and can be told to fail a claim (\<open>SetClaimTaskErr\<close>); the fake
  client answers from the functions the test installs, and the test's allocation hands back
  a container of the executor "the-executor-guid" with the guid asked for.
\<close>

record fake =
  claimTaskErr :: "error option"
  allocateErr :: "error option"
  initializeErr :: "error option"
  claimedTasks :: "string list"
  deletedContainers :: "string list"

definition fakeScheduler :: "string \<Rightarrow> fake TaskScheduler" where
  "fakeScheduler st =
     \<lparr>schedulerBBS =
        \<lparr>ClaimTask = (\<lambda>g owner f.
            case claimTaskErr f of
              Some err \<Rightarrow> (Some err, f)
            | None \<Rightarrow> (None, f\<lparr>claimedTasks := claimedTasks f @ [g]\<rparr>))\<rparr>,
      client =
        \<lparr>AllocateContainer = (\<lambda>g req tags f.
            case allocateErr f of
              Some err \<Rightarrow> ((\<lparr>ExecutorGuid = [], ContainerGuid = []\<rparr>, Some err), f)
            | None \<Rightarrow>
                ((\<lparr>ExecutorGuid = ''the-executor-guid'', ContainerGuid = g\<rparr>, None), f)),
         InitializeContainer = (\<lambda>g f. (initializeErr f, f)),
         ClientDeleteContainer = (\<lambda>g f.
            (None, f\<lparr>deletedContainers := deletedContainers f @ [g]\<rparr>))\<rparr>,
      stack = st,
      schedulerCellID = ''cell-1''\<rparr>"

definition freshFake :: fake where
  "freshFake =
     \<lparr>claimTaskErr = None, allocateErr = None, initializeErr = None,
      claimedTasks = [], deletedContainers = []\<rparr>"

definition stagingTask :: "string \<Rightarrow> Task" where
  "stagingTask st =
     \<lparr>TaskGuid = ''task-guid-123'', Stack = st, MemoryMB = 64, DiskMB = 1024,
      CpuPercent = 1 / 2, Actions = [''the-script''],
      Log = \<lparr>LogGuid = ''some-guid'', SourceName = ''XYZ'', Index = Some 0\<rparr>,
      ResultFile = ''/tmp/result''\<rparr>"

section \<open>Properties of the Task Processor\<close>

subsection \<open>Traces of the parts\<close>

lemma calls_append [simp]: "calls (xs @ ys) = calls xs @ calls ys"
  by (simp add: calls_def)

lemma calls_Nil [simp]: "calls [] = []"
  by (simp add: calls_def)

lemma calls_Cons: "calls (e # t) = (if isLog e then calls t else e # calls t)"
  by (simp add: calls_def)

lemma filter_isDelete_calls: "filter isDelete t = filter isDelete (calls t)"
proof (induction t)
  case Nil
  show ?case by simp
next
  case (Cons e t)
  then show ?case by (cases e) (simp_all add: calls_Cons)
qed

lemma filter_isRun_calls: "filter isRun t = filter isRun (calls t)"
proof (induction t)
  case Nil
  show ?case by simp
next
  case (Cons e t)
  then show ?case by (cases e) (simp_all add: calls_Cons)
qed

lemma filter_isFetch_calls: "filter isFetch t = filter isFetch (calls t)"
proof (induction t)
  case Nil
  show ?case by simp
next
  case (Cons e t)
  then show ?case by (cases e) (simp_all add: calls_Cons)
qed

lemma filter_isComplete_calls: "filter isComplete t = filter isComplete (calls t)"
proof (induction t)
  case Nil
  show ?case by simp
next
  case (Cons e t)
  then show ?case by (cases e) (simp_all add: calls_Cons)
qed

lemma filter_isStoreCall_calls: "filter isStoreCall t = filter isStoreCall (calls t)"
proof (induction t)
  case Nil
  show ?case by simp
next
  case (Cons e t)
  then show ?case by (cases e) (simp_all add: calls_Cons)
qed

lemma trace_emit: "trace (emit e s) = trace s @ [e]"
  by (simp add: emit_def)

lemma world_emit [simp]: "world (emit e s) = world s"
  by (simp add: emit_def)

lemma calls_emit_log [simp]: "isLog e \<Longrightarrow> calls (trace (emit e s)) = calls (trace s)"
  by (simp add: trace_emit calls_Cons)

lemma calls_failTask [simp]:
  "calls (trace (failTask p g r s)) = calls (trace s) @ [FailTaskCall g r]"
  by (simp add: failTask_def callFailTask_def calls_Cons split: prod.splits option.splits)

lemma world_failTask:
  "world (failTask p g r s) = snd (FailTask (bbs p) g r (world s))"
  by (simp add: failTask_def callFailTask_def split: prod.splits option.splits)

lemma calls_callDeleteContainer [simp]:
  "calls (trace (callDeleteContainer p g s)) = calls (trace s) @ [DeleteContainerCall g]"
  by (simp add: callDeleteContainer_def calls_Cons)

lemma calls_callRunContainer [simp]:
  "calls (trace (snd (callRunContainer p g s))) = calls (trace s) @ [RunContainerCall g]"
  by (simp add: callRunContainer_def calls_Cons split: prod.splits)

lemma fst_callRunContainer [simp]:
  "fst (callRunContainer p g s) = fst (RunContainer (containerDelegate p) g (world s))"
  by (simp add: callRunContainer_def split: prod.splits)

subsection \<open>startTask and processActiveContainer\<close>

lemma startTask_error:
  assumes "StartTask (bbs p) g (cellID p) (world s) = ((changed, Some err), w')"
  shows "fst (startTask p g s) = False"
    and "calls (trace (snd (startTask p g s))) =
           calls (trace s) @ StartTaskCall g (cellID p) #
             (if err = TaskStateTransitionError \<or> err = ErrTaskRunningOnDifferentCell
                 \<or> err = ErrStoreResourceNotFound
              then [DeleteContainerCall g] else [])"
  using assms
  by (simp_all add: startTask_def callStartTask_def callDeleteContainer_def calls_Cons Let_def)

lemma startTask_ok:
  assumes "StartTask (bbs p) g (cellID p) (world s) = ((changed, None), w')"
  shows "fst (startTask p g s) = changed"
    and "calls (trace (snd (startTask p g s))) = calls (trace s) @ [StartTaskCall g (cellID p)]"
    and "world (snd (startTask p g s)) = w'"
  using assms
  by (simp_all add: startTask_def callStartTask_def calls_Cons)

lemma processActive_unfold:
  "processActiveContainer p c s =
     (if fst (startTask p (Guid c) s)
      then (case callRunContainer p (Guid c) (snd (startTask p (Guid c) s)) of
             (False, s2) \<Rightarrow> failTask p (Guid c) TaskCompletionReasonFailedToRunContainer s2
           | (True, s2) \<Rightarrow> s2)
      else snd (startTask p (Guid c) s))"
  by (simp add: processActiveContainer_def split: prod.splits bool.splits)

lemma calls_processActive_error:
  assumes "StartTask (bbs p) (Guid c) (cellID p) (world s) = ((changed, Some err), w')"
  shows "calls (trace (processActiveContainer p c s)) =
           calls (trace s) @ StartTaskCall (Guid c) (cellID p) #
             (if err = TaskStateTransitionError \<or> err = ErrTaskRunningOnDifferentCell
                 \<or> err = ErrStoreResourceNotFound
              then [DeleteContainerCall (Guid c)] else [])"
  using startTask_error [OF assms] by (simp add: processActive_unfold)

lemma calls_processActive_ok:
  assumes "StartTask (bbs p) (Guid c) (cellID p) (world s) = ((changed, None), w')"
  shows "calls (trace (processActiveContainer p c s)) =
           calls (trace s) @ StartTaskCall (Guid c) (cellID p) #
             (if changed
              then RunContainerCall (Guid c) #
                (if fst (RunContainer (containerDelegate p) (Guid c) w') then []
                 else [FailTaskCall (Guid c) TaskCompletionReasonFailedToRunContainer])
              else [])"
proof (cases changed)
  case False
  then show ?thesis using startTask_ok [OF assms] by (simp add: processActive_unfold)
next
  case True
  obtain r s2 where r: "callRunContainer p (Guid c) (snd (startTask p (Guid c) s)) = (r, s2)"
    by (cases "callRunContainer p (Guid c) (snd (startTask p (Guid c) s))")
  have 1: "calls (trace s2) =
             calls (trace s) @ [StartTaskCall (Guid c) (cellID p), RunContainerCall (Guid c)]"
    using calls_callRunContainer [of p "Guid c" "snd (startTask p (Guid c) s)"] r
      startTask_ok(2) [OF assms]
    by simp
  have 2: "r = fst (RunContainer (containerDelegate p) (Guid c) w')"
    using fst_callRunContainer [of p "Guid c" "snd (startTask p (Guid c) s)"] r
      startTask_ok(3) [OF assms]
    by simp
  show ?thesis using True startTask_ok(1) [OF assms] r 1 2
    by (simp add: processActive_unfold split: bool.splits)
qed

subsection \<open>completeTask and processCompletedContainer\<close>

lemma completeTask_failed:
  assumes "Failed (RunResult c)"
    and "CompleteTask (bbs p) (Guid c) (cellID p) True (FailureReason (RunResult c)) []
           (world s) = (r, w1)"
  shows "calls (trace (completeTask tag p c s)) =
           calls (trace s) @
           CompleteTaskCall (Guid c) (cellID p) True (FailureReason (RunResult c)) [] #
             (if r = Some TaskStateTransitionError
              then [FailTaskCall (Guid c) TaskCompletionReasonInvalidTransition] else [])"
  using assms
  by (cases r) (simp_all add: completeTask_def callCompleteTask_def calls_Cons Let_def)

lemma completeTask_fetch_error:
  assumes "\<not> Failed (RunResult c)"
    and "FetchContainerResultFile (containerDelegate p) (Guid c) (tagLookup (Tags c) tag)
           (world s) = ((res, Some err), w1)"
  shows "calls (trace (completeTask tag p c s)) =
           calls (trace s) @
           [FetchContainerResultFileCall (Guid c) (tagLookup (Tags c) tag),
            FailTaskCall (Guid c) TaskCompletionReasonFailedToFetchResult]"
  using assms
  by (simp add: completeTask_def callFetchContainerResultFile_def calls_Cons Let_def)

lemma completeTask_fetched:
  assumes "\<not> Failed (RunResult c)"
    and "FetchContainerResultFile (containerDelegate p) (Guid c) (tagLookup (Tags c) tag)
           (world s) = ((res, None), w1)"
    and "CompleteTask (bbs p) (Guid c) (cellID p) False (FailureReason (RunResult c)) res
           w1 = (r, w2)"
  shows "calls (trace (completeTask tag p c s)) =
           calls (trace s) @
           FetchContainerResultFileCall (Guid c) (tagLookup (Tags c) tag) #
           CompleteTaskCall (Guid c) (cellID p) False (FailureReason (RunResult c)) res #
             (if r = Some TaskStateTransitionError
              then [FailTaskCall (Guid c) TaskCompletionReasonInvalidTransition] else [])"
  using assms
  by (cases r)
    (simp_all add: completeTask_def callFetchContainerResultFile_def callCompleteTask_def
      calls_Cons Let_def)

lemma completeTask_no_delete:
  "filter isDelete (calls (trace (completeTask tag p c s))) = filter isDelete (calls (trace s))"
proof (cases "Failed (RunResult c)")
  case True
  obtain r w1 where "CompleteTask (bbs p) (Guid c) (cellID p) True (FailureReason (RunResult c)) []
           (world s) = (r, w1)"
    by (cases "CompleteTask (bbs p) (Guid c) (cellID p) True (FailureReason (RunResult c)) []
           (world s)")
  from completeTask_failed [OF True this] show ?thesis by simp
next
  case False
  obtain res e w1 where f: "FetchContainerResultFile (containerDelegate p) (Guid c)
      (tagLookup (Tags c) tag) (world s) = ((res, e), w1)"
    by (cases "FetchContainerResultFile (containerDelegate p) (Guid c)
      (tagLookup (Tags c) tag) (world s)") auto
  show ?thesis
  proof (cases e)
    case (Some err)
    from completeTask_fetch_error [OF False f [unfolded Some]] show ?thesis by simp
  next
    case None
    obtain r w2 where "CompleteTask (bbs p) (Guid c) (cellID p) False
        (FailureReason (RunResult c)) res w1 = (r, w2)"
      by (cases "CompleteTask (bbs p) (Guid c) (cellID p) False
        (FailureReason (RunResult c)) res w1")
    from completeTask_fetched [OF False f [unfolded None] this] show ?thesis by simp
  qed
qed

subsection \<open>The world the parts leave\<close>

lemma world_callDeleteContainer [simp]:
  "world (callDeleteContainer p g s) = DeleteContainer (containerDelegate p) g (world s)"
  by (simp add: callDeleteContainer_def)

lemma world_callRunContainer [simp]:
  "world (snd (callRunContainer p g s)) = snd (RunContainer (containerDelegate p) g (world s))"
  by (simp add: callRunContainer_def split: prod.splits)

lemma world_startTask_error:
  assumes "StartTask (bbs p) g (cellID p) (world s) = ((changed, Some err), w')"
  shows "world (snd (startTask p g s)) =
           (if err = TaskStateTransitionError \<or> err = ErrTaskRunningOnDifferentCell
               \<or> err = ErrStoreResourceNotFound
            then DeleteContainer (containerDelegate p) g w' else w')"
  using assms
  by (simp add: startTask_def callStartTask_def callDeleteContainer_def Let_def)

lemma world_processActive_error:
  assumes "StartTask (bbs p) (Guid c) (cellID p) (world s) = ((changed, Some err), w')"
  shows "world (processActiveContainer p c s) =
           (if err = TaskStateTransitionError \<or> err = ErrTaskRunningOnDifferentCell
               \<or> err = ErrStoreResourceNotFound
            then DeleteContainer (containerDelegate p) (Guid c) w' else w')"
  using startTask_error(1) [OF assms] world_startTask_error [OF assms]
  by (simp add: processActive_unfold)

lemma world_processActive_ok:
  assumes "StartTask (bbs p) (Guid c) (cellID p) (world s) = ((changed, None), w')"
  shows "world (processActiveContainer p c s) =
           (if changed
            then if fst (RunContainer (containerDelegate p) (Guid c) w')
                 then snd (RunContainer (containerDelegate p) (Guid c) w')
                 else snd (FailTask (bbs p) (Guid c) TaskCompletionReasonFailedToRunContainer
                        (snd (RunContainer (containerDelegate p) (Guid c) w')))
            else w')"
proof (cases changed)
  case False
  then show ?thesis using startTask_ok [OF assms] by (simp add: processActive_unfold)
next
  case True
  obtain r s2 where r: "callRunContainer p (Guid c) (snd (startTask p (Guid c) s)) = (r, s2)"
    by (cases "callRunContainer p (Guid c) (snd (startTask p (Guid c) s))")
  have 1: "world s2 = snd (RunContainer (containerDelegate p) (Guid c) w')"
    using world_callRunContainer [of p "Guid c" "snd (startTask p (Guid c) s)"] r
      startTask_ok(3) [OF assms]
    by simp
  have 2: "r = fst (RunContainer (containerDelegate p) (Guid c) w')"
    using fst_callRunContainer [of p "Guid c" "snd (startTask p (Guid c) s)"] r
      startTask_ok(3) [OF assms]
    by simp
  show ?thesis using True startTask_ok(1) [OF assms] r 1 2
    by (simp add: processActive_unfold world_failTask split: bool.splits)
qed

lemma world_completeTask_failed:
  assumes "Failed (RunResult c)"
    and "CompleteTask (bbs p) (Guid c) (cellID p) True (FailureReason (RunResult c)) []
           (world s) = (r, w1)"
  shows "world (completeTask tag p c s) =
           (if r = Some TaskStateTransitionError
            then snd (FailTask (bbs p) (Guid c) TaskCompletionReasonInvalidTransition w1)
            else w1)"
  using assms
  by (cases r)
    (simp_all add: completeTask_def callCompleteTask_def world_failTask Let_def)

lemma world_completeTask_fetch_error:
  assumes "\<not> Failed (RunResult c)"
    and "FetchContainerResultFile (containerDelegate p) (Guid c) (tagLookup (Tags c) tag)
           (world s) = ((res, Some err), w1)"
  shows "world (completeTask tag p c s) =
           snd (FailTask (bbs p) (Guid c) TaskCompletionReasonFailedToFetchResult w1)"
  using assms
  by (simp add: completeTask_def callFetchContainerResultFile_def world_failTask Let_def)

lemma world_completeTask_fetched:
  assumes "\<not> Failed (RunResult c)"
    and "FetchContainerResultFile (containerDelegate p) (Guid c) (tagLookup (Tags c) tag)
           (world s) = ((res, None), w1)"
    and "CompleteTask (bbs p) (Guid c) (cellID p) False (FailureReason (RunResult c)) res
           w1 = (r, w2)"
  shows "world (completeTask tag p c s) =
           (if r = Some TaskStateTransitionError
            then snd (FailTask (bbs p) (Guid c) TaskCompletionReasonInvalidTransition w2)
            else w2)"
  using assms
  by (cases r)
    (simp_all add: completeTask_def callFetchContainerResultFile_def callCompleteTask_def
      world_failTask Let_def)

lemma world_completeTask_cong:
  assumes "world s = world s'"
  shows "world (completeTask tag p c s) = world (completeTask tag p c s')"
proof (cases "Failed (RunResult c)")
  case True
  obtain r w1 where a: "CompleteTask (bbs p) (Guid c) (cellID p) True
      (FailureReason (RunResult c)) [] (world s) = (r, w1)"
    by (cases "CompleteTask (bbs p) (Guid c) (cellID p) True (FailureReason (RunResult c)) []
           (world s)")
  from a assms have b: "CompleteTask (bbs p) (Guid c) (cellID p) True
      (FailureReason (RunResult c)) [] (world s') = (r, w1)"
    by simp
  show ?thesis
    by (simp add: world_completeTask_failed [OF True a] world_completeTask_failed [OF True b])
next
  case False
  obtain res e w1 where f: "FetchContainerResultFile (containerDelegate p) (Guid c)
      (tagLookup (Tags c) tag) (world s) = ((res, e), w1)"
    by (cases "FetchContainerResultFile (containerDelegate p) (Guid c)
      (tagLookup (Tags c) tag) (world s)") auto
  from f assms have f': "FetchContainerResultFile (containerDelegate p) (Guid c)
      (tagLookup (Tags c) tag) (world s') = ((res, e), w1)"
    by simp
  show ?thesis
  proof (cases e)
    case (Some err)
    show ?thesis
      by (simp add: world_completeTask_fetch_error [OF False f [unfolded Some]]
          world_completeTask_fetch_error [OF False f' [unfolded Some]])
  next
    case None
    obtain r w2 where a: "CompleteTask (bbs p) (Guid c) (cellID p) False
        (FailureReason (RunResult c)) res w1 = (r, w2)"
      by (cases "CompleteTask (bbs p) (Guid c) (cellID p) False
        (FailureReason (RunResult c)) res w1")
    show ?thesis
      by (simp add: world_completeTask_fetched [OF False f [unfolded None] a]
          world_completeTask_fetched [OF False f' [unfolded None] a])
  qed
qed

subsection \<open>Process\<close>

lemma Process_active:
  assumes "isActive (State c)"
  obtains s where "world s = w" and "calls (trace s) = []"
    and "calls (events tag p c w) = calls (trace (processActiveContainer p c s))"
    and "world (Process tag p c \<lparr>trace = [], world = w\<rparr>) =
           world (processActiveContainer p c s)"
proof (cases "State c")
  case StateReserved
  show ?thesis
    by (rule that [of "emit (LogDebug ''processing-reserved-container'')
          (emit (LogDebug ''starting'') \<lparr>trace = [], world = w\<rparr>)"])
      (simp_all add: events_def Process_def StateReserved)
next
  case StateInitializing
  show ?thesis
    by (rule that [of "emit (LogDebug ''processing-initializing-container'')
          (emit (LogDebug ''starting'') \<lparr>trace = [], world = w\<rparr>)"])
      (simp_all add: events_def Process_def StateInitializing)
next
  case StateCreated
  show ?thesis
    by (rule that [of "emit (LogDebug ''processing-created-container'')
          (emit (LogDebug ''starting'') \<lparr>trace = [], world = w\<rparr>)"])
      (simp_all add: events_def Process_def StateCreated)
next
  case StateRunning
  show ?thesis
    by (rule that [of "emit (LogDebug ''processing-running-container'')
          (emit (LogDebug ''starting'') \<lparr>trace = [], world = w\<rparr>)"])
      (simp_all add: events_def Process_def StateRunning)
next
  case StateCompleted
  with assms show ?thesis by (simp add: isActive_def)
next
  case (StateOther x)
  with assms show ?thesis by (simp add: isActive_def)
qed

lemma Process_completed:
  assumes "State c = StateCompleted"
  obtains s where "world s = w" and "calls (trace s) = []"
    and "calls (events tag p c w) =
           calls (trace (completeTask tag p c s)) @ [DeleteContainerCall (Guid c)]"
    and "world (Process tag p c \<lparr>trace = [], world = w\<rparr>) =
           DeleteContainer (containerDelegate p) (Guid c) (world (completeTask tag p c s))"
  by (rule that [of "emit (LogDebug ''processing-completed-container'')
          (emit (LogDebug ''starting'') \<lparr>trace = [], world = w\<rparr>)"])
    (simp_all add: events_def Process_def processCompletedContainer_def assms)

subsection \<open>The journal and the trace\<close>

lemma coupled_emit:
  "coupled sj s \<Longrightarrow> isLog e \<Longrightarrow> coupled (emit e sj) (emit e s)"
  by (simp add: coupled_def emit_def calls_Cons)

lemma coupled_callStartTask:
  assumes "coupled sj s"
  shows "fst (callStartTask (recording p) g sj) = fst (callStartTask p g s)"
    and "coupled (snd (callStartTask (recording p) g sj)) (snd (callStartTask p g s))"
  using assms
  by (simp_all add: coupled_def callStartTask_def recording_def calls_Cons split: prod.splits)

lemma coupled_callCompleteTask:
  assumes "coupled sj s"
  shows "fst (callCompleteTask (recording p) g f r res sj) = fst (callCompleteTask p g f r res s)"
    and "coupled (snd (callCompleteTask (recording p) g f r res sj))
           (snd (callCompleteTask p g f r res s))"
  using assms
  by (simp_all add: coupled_def callCompleteTask_def recording_def calls_Cons split: prod.splits)

lemma coupled_callFailTask:
  assumes "coupled sj s"
  shows "fst (callFailTask (recording p) g r sj) = fst (callFailTask p g r s)"
    and "coupled (snd (callFailTask (recording p) g r sj)) (snd (callFailTask p g r s))"
  using assms
  by (simp_all add: coupled_def callFailTask_def recording_def calls_Cons split: prod.splits)

lemma coupled_callRunContainer:
  assumes "coupled sj s"
  shows "fst (callRunContainer (recording p) g sj) = fst (callRunContainer p g s)"
    and "coupled (snd (callRunContainer (recording p) g sj)) (snd (callRunContainer p g s))"
  using assms
  by (simp_all add: coupled_def callRunContainer_def recording_def calls_Cons split: prod.splits)

lemma coupled_callDeleteContainer:
  assumes "coupled sj s"
  shows "coupled (callDeleteContainer (recording p) g sj) (callDeleteContainer p g s)"
  using assms
  by (simp add: coupled_def callDeleteContainer_def recording_def calls_Cons)

lemma coupled_callFetchContainerResultFile:
  assumes "coupled sj s"
  shows "fst (callFetchContainerResultFile (recording p) g path sj) =
           fst (callFetchContainerResultFile p g path s)"
    and "coupled (snd (callFetchContainerResultFile (recording p) g path sj))
           (snd (callFetchContainerResultFile p g path s))"
  using assms
  by (simp_all add: coupled_def callFetchContainerResultFile_def recording_def calls_Cons
      split: prod.splits)

lemma failTask_unfold:
  "failTask p g r s =
     (case fst (callFailTask p g r (emit (LogInfo ''failing-task'') s)) of
        Some err \<Rightarrow> emit (LogError ''failed-failing-task'' err)
                     (snd (callFailTask p g r (emit (LogInfo ''failing-task'') s)))
      | None \<Rightarrow> emit (LogInfo ''succeeded-failing-task'')
                     (snd (callFailTask p g r (emit (LogInfo ''failing-task'') s))))"
  by (simp add: failTask_def split: prod.splits option.splits)

lemma coupled_failTask:
  assumes "coupled sj s"
  shows "coupled (failTask (recording p) g r sj) (failTask p g r s)"
proof -
  have e: "coupled (emit (LogInfo ''failing-task'') sj) (emit (LogInfo ''failing-task'') s)"
    using assms by (simp add: coupled_emit)
  note c = coupled_callFailTask [OF e, of p g r]
  show ?thesis
    by (cases "fst (callFailTask p g r (emit (LogInfo ''failing-task'') s))")
      (simp_all add: failTask_unfold c coupled_emit)
qed

lemma startTask_unfold:
  "startTask p g s =
     (let r = fst (callStartTask p g (emit (LogInfo ''starting-task'') s));
          s1 = snd (callStartTask p g (emit (LogInfo ''starting-task'') s))
      in case snd r of
           Some err \<Rightarrow>
             (False,
              if err = TaskStateTransitionError \<or> err = ErrTaskRunningOnDifferentCell
                  \<or> err = ErrStoreResourceNotFound
              then callDeleteContainer p g (emit (LogError ''failed-starting-task'' err) s1)
              else emit (LogError ''failed-starting-task'' err) s1)
         | None \<Rightarrow>
             (fst r,
              if fst r then emit (LogInfo ''succeeded-starting-task'') s1
              else emit (LogInfo ''task-already-started'') s1))"
  by (simp add: startTask_def Let_def split: prod.splits option.splits)

lemma coupled_startTask:
  assumes "coupled sj s"
  shows "fst (startTask (recording p) g sj) = fst (startTask p g s)"
    and "coupled (snd (startTask (recording p) g sj)) (snd (startTask p g s))"
proof -
  have e: "coupled (emit (LogInfo ''starting-task'') sj) (emit (LogInfo ''starting-task'') s)"
    using assms by (simp add: coupled_emit)
  note c = coupled_callStartTask [OF e, of p g]
  show "fst (startTask (recording p) g sj) = fst (startTask p g s)"
    by (simp add: startTask_unfold c Let_def split: option.splits)
  show "coupled (snd (startTask (recording p) g sj)) (snd (startTask p g s))"
    by (simp add: startTask_unfold c Let_def coupled_emit coupled_callDeleteContainer
        split: option.splits)
qed

lemma coupled_processActiveContainer:
  assumes "coupled sj s"
  shows "coupled (processActiveContainer (recording p) c sj) (processActiveContainer p c s)"
proof -
  note st = coupled_startTask [OF assms, of p "Guid c"]
  note r = coupled_callRunContainer [OF st(2)]
  show ?thesis
  proof (cases "fst (startTask p (Guid c) s)")
    case False
    then show ?thesis by (simp add: processActive_unfold st)
  next
    case True
    show ?thesis
    proof (cases "fst (callRunContainer p (Guid c) (snd (startTask p (Guid c) s)))")
      case True
      with \<open>fst (startTask p (Guid c) s)\<close> r st show ?thesis
        by (simp add: processActive_unfold split_beta del: fst_callRunContainer)
    next
      case False
      with \<open>fst (startTask p (Guid c) s)\<close> r st show ?thesis
        by (simp add: processActive_unfold split_beta coupled_failTask del: fst_callRunContainer)
    qed
  qed
qed

lemma completeTask_unfold:
  "completeTask tag p c s =
     (let finish = (\<lambda>result s0.
            let cs = callCompleteTask p (Guid c) (Failed (RunResult c))
                       (FailureReason (RunResult c)) result (emit (LogInfo ''completing-task'') s0)
            in case fst cs of
                 Some err \<Rightarrow>
                   if err = TaskStateTransitionError
                   then failTask p (Guid c) TaskCompletionReasonInvalidTransition
                          (emit (LogError ''failed-completing-task'' err) (snd cs))
                   else emit (LogError ''failed-completing-task'' err) (snd cs)
               | None \<Rightarrow> emit (LogInfo ''succeeded-completing-task'') (snd cs))
      in if \<not> Failed (RunResult c)
         then (let fs = callFetchContainerResultFile p (Guid c) (tagLookup (Tags c) tag) s
               in case snd (fst fs) of
                    Some err \<Rightarrow>
                      failTask p (Guid c) TaskCompletionReasonFailedToFetchResult (snd fs)
                  | None \<Rightarrow> finish (fst (fst fs)) (snd fs))
         else finish [] s)"
  by (simp add: completeTask_def Let_def split: prod.splits option.splits)

lemma coupled_finish:
  assumes "coupled sj s"
  shows "coupled
    (let cs = callCompleteTask (recording p) g f r res (emit (LogInfo ''completing-task'') sj)
     in case fst cs of
          Some err \<Rightarrow>
            if err = TaskStateTransitionError
            then failTask (recording p) g TaskCompletionReasonInvalidTransition
                   (emit (LogError ''failed-completing-task'' err) (snd cs))
            else emit (LogError ''failed-completing-task'' err) (snd cs)
        | None \<Rightarrow> emit (LogInfo ''succeeded-completing-task'') (snd cs))
    (let cs = callCompleteTask p g f r res (emit (LogInfo ''completing-task'') s)
     in case fst cs of
          Some err \<Rightarrow>
            if err = TaskStateTransitionError
            then failTask p g TaskCompletionReasonInvalidTransition
                   (emit (LogError ''failed-completing-task'' err) (snd cs))
            else emit (LogError ''failed-completing-task'' err) (snd cs)
        | None \<Rightarrow> emit (LogInfo ''succeeded-completing-task'') (snd cs))"
proof -
  have e: "coupled (emit (LogInfo ''completing-task'') sj) (emit (LogInfo ''completing-task'') s)"
    using assms by (simp add: coupled_emit)
  note c = coupled_callCompleteTask [OF e, of p g f r res]
  show ?thesis
    by (simp add: Let_def c coupled_emit coupled_failTask split: option.splits)
qed

lemma coupled_completeTask:
  assumes "coupled sj s"
  shows "coupled (completeTask tag (recording p) c sj) (completeTask tag p c s)"
proof (cases "Failed (RunResult c)")
  case True
  with coupled_finish [OF assms, of p "Guid c" True "FailureReason (RunResult c)" "[]"]
  show ?thesis
    by (simp add: completeTask_unfold)
next
  case False
  note f = coupled_callFetchContainerResultFile [OF assms, of p "Guid c" "tagLookup (Tags c) tag"]
  show ?thesis
  proof (cases "snd (fst (callFetchContainerResultFile p (Guid c) (tagLookup (Tags c) tag) s))")
    case (Some err)
    with False f coupled_failTask [OF f(2)] show ?thesis
      by (simp add: completeTask_unfold Let_def)
  next
    case None
    with False f
      coupled_finish [OF f(2), of p "Guid c" False "FailureReason (RunResult c)"
        "fst (fst (callFetchContainerResultFile p (Guid c) (tagLookup (Tags c) tag) s))"]
    show ?thesis
      by (simp add: completeTask_unfold Let_def)
  qed
qed

lemma coupled_Process:
  assumes "coupled sj s"
  shows "coupled (Process tag (recording p) c sj) (Process tag p c s)"
proof -
  have s: "coupled (emit (LogDebug ''starting'') sj) (emit (LogDebug ''starting'') s)"
    using assms by (simp add: coupled_emit)
  show ?thesis
  proof (cases "State c")
    case StateReserved
    then show ?thesis
      by (simp add: Process_def coupled_emit coupled_processActiveContainer s)
  next
    case StateInitializing
    then show ?thesis
      by (simp add: Process_def coupled_emit coupled_processActiveContainer s)
  next
    case StateCreated
    then show ?thesis
      by (simp add: Process_def coupled_emit coupled_processActiveContainer s)
  next
    case StateRunning
    then show ?thesis
      by (simp add: Process_def coupled_emit coupled_processActiveContainer s)
  next
    case StateCompleted
    then show ?thesis
      by (simp add: Process_def processCompletedContainer_def coupled_emit
          coupled_completeTask coupled_callDeleteContainer s)
  next
    case (StateOther x)
    then show ?thesis
      by (simp add: Process_def coupled_emit s)
  qed
qed

lemma asked_calls: "asked tag p c w = calls (events tag p c w)"
proof -
  have "coupled \<lparr>trace = [], world = ([], w)\<rparr> \<lparr>trace = [], world = w\<rparr>"
    by (simp add: coupled_def)
  from coupled_Process [OF this, of tag p c] show ?thesis
    by (simp add: coupled_def asked_def events_def)
qed

subsection \<open>The claims\<close>

text \<open>
  C1. For every observation of a container in the Completed state, Process calls
  DeleteContainer exactly once, for that container's guid, whatever the store and the
  delegate answer to the fetch of the result file, to CompleteTask and to FailTask
  (the processor \<open>p\<close> and the world \<open>w\<close> are arbitrary). The trace holds one delete, the
  delegate's journal holds one delete, and the world Process leaves is the delegate's
  DeleteContainer applied to the world completeTask leaves.
\<close>

theorem completed_deletes_exactly_once:
  assumes "State c = StateCompleted"
  shows "filter isDelete (events tag p c w) = [DeleteContainerCall (Guid c)] \<and>
         filter isDelete (asked tag p c w) = [DeleteContainerCall (Guid c)] \<and>
         world (Process tag p c \<lparr>trace = [], world = w\<rparr>) =
           DeleteContainer (containerDelegate p) (Guid c)
             (world (completeTask tag p c \<lparr>trace = [], world = w\<rparr>))"
proof -
  from assms obtain s where s: "world s = w" "calls (trace s) = []"
    and e: "calls (events tag p c w) =
              calls (trace (completeTask tag p c s)) @ [DeleteContainerCall (Guid c)]"
    and v: "world (Process tag p c \<lparr>trace = [], world = w\<rparr>) =
              DeleteContainer (containerDelegate p) (Guid c) (world (completeTask tag p c s))"
    by (rule Process_completed)
  have d: "filter isDelete (calls (events tag p c w)) = [DeleteContainerCall (Guid c)]"
    by (simp add: e completeTask_no_delete s)
  have "world (completeTask tag p c s) = world (completeTask tag p c \<lparr>trace = [], world = w\<rparr>)"
    by (rule world_completeTask_cong) (simp add: s)
  with v d show ?thesis
    by (simp add: asked_calls filter_isDelete_calls [of "events tag p c w"])
qed

theorem completed_deletes_exactly_once_witness:
  "State (observed StateCompleted False []) = StateCompleted \<and>
   filter isDelete (events ''result-file'' (scripted allGood) (observed StateCompleted False []) 0)
     = [DeleteContainerCall ''task-guid-123''] \<and>
   filter isDelete (asked ''result-file'' (scripted allGood) (observed StateCompleted False []) 0)
     = [DeleteContainerCall ''task-guid-123''] \<and>
   world (Process ''result-file'' (scripted allGood) (observed StateCompleted False [])
       \<lparr>trace = [], world = 0\<rparr>) = 3"
  using completed_deletes_exactly_once
    [of "observed StateCompleted False []" "''result-file''" "scripted allGood" 0]
  by (simp add: observed_def scripted_def allGood_def completeTask_def
      callFetchContainerResultFile_def callCompleteTask_def emit_def tagLookup_def)

text \<open>
  C2, as amended. For every observation of a container in an active state (Reserved,
  Initializing, Created or Running) for which StartTask returns no error: if it reports
  changed = true, Process requests RunContainer for that container, once, in the world
  StartTask left (and fails the task when the request is refused); if it reports the no-op
  changed = false (the task was already started), startTask returns false and Process makes
  no run call: the delegate is not asked and the world is the one StartTask left.
\<close>

theorem active_start_ok_runs_iff_changed:
  assumes "isActive (State c)"
    and "StartTask (bbs p) (Guid c) (cellID p) w = ((changed, None), w')"
  shows "filter isRun (events tag p c w) = (if changed then [RunContainerCall (Guid c)] else [])
         \<and> asked tag p c w =
             StartTaskCall (Guid c) (cellID p) #
               (if changed
                then RunContainerCall (Guid c) #
                  (if fst (RunContainer (containerDelegate p) (Guid c) w') then []
                   else [FailTaskCall (Guid c) ''failed to run container''])
                else [])
         \<and> world (Process tag p c \<lparr>trace = [], world = w\<rparr>) =
             (if changed
              then if fst (RunContainer (containerDelegate p) (Guid c) w')
                   then snd (RunContainer (containerDelegate p) (Guid c) w')
                   else snd (FailTask (bbs p) (Guid c) ''failed to run container''
                          (snd (RunContainer (containerDelegate p) (Guid c) w')))
              else w')"
proof -
  from assms(1) obtain s where s: "world s = w" "calls (trace s) = []"
    and e: "calls (events tag p c w) = calls (trace (processActiveContainer p c s))"
    and v: "world (Process tag p c \<lparr>trace = [], world = w\<rparr>) =
              world (processActiveContainer p c s)"
    by (rule Process_active)
  from assms(2) s(1)
  have a: "StartTask (bbs p) (Guid c) (cellID p) (world s) = ((changed, None), w')"
    by simp
  from calls_processActive_ok [OF a] e s(2)
  have c: "calls (events tag p c w) =
          StartTaskCall (Guid c) (cellID p) #
             (if changed
              then RunContainerCall (Guid c) #
                (if fst (RunContainer (containerDelegate p) (Guid c) w') then []
                 else [FailTaskCall (Guid c) ''failed to run container''])
              else [])"
    by (simp add: TaskCompletionReasonFailedToRunContainer_def)
  then have r: "filter isRun (calls (events tag p c w)) =
               (if changed then [RunContainerCall (Guid c)] else [])"
    by simp
  from world_processActive_ok [OF a] v
  have "world (Process tag p c \<lparr>trace = [], world = w\<rparr>) =
             (if changed
              then if fst (RunContainer (containerDelegate p) (Guid c) w')
                   then snd (RunContainer (containerDelegate p) (Guid c) w')
                   else snd (FailTask (bbs p) (Guid c) ''failed to run container''
                          (snd (RunContainer (containerDelegate p) (Guid c) w')))
              else w')"
    by (simp add: TaskCompletionReasonFailedToRunContainer_def)
  with c r show ?thesis
    by (simp add: asked_calls filter_isRun_calls [of "events tag p c w"])
qed

theorem active_start_ok_runs_iff_changed_witness:
  "isActive (State (observed StateRunning False [])) \<and>
   StartTask (bbs (scripted allGood)) (Guid (observed StateRunning False []))
     (cellID (scripted allGood)) 0 = ((True, None), 1) \<and>
   filter isRun (events ''result-file'' (scripted allGood) (observed StateRunning False []) 0)
     = [RunContainerCall ''task-guid-123''] \<and>
   asked ''result-file'' (scripted allGood) (observed StateRunning False []) 0
     = [StartTaskCall ''task-guid-123'' ''cell-1'', RunContainerCall ''task-guid-123''] \<and>
   world (Process ''result-file'' (scripted allGood) (observed StateRunning False [])
     \<lparr>trace = [], world = 0\<rparr>) = 2"
  using active_start_ok_runs_iff_changed
    [of "observed StateRunning False []" "scripted allGood" 0 True 1 "''result-file''"]
  by (simp add: observed_def scripted_def allGood_def isActive_def)

text \<open>
  C2, as the claim states it, fails: a Running container whose StartTask answers the no-op
  (changed = false, no error) gets no RunContainer request. StartTask is the only call the
  collaborators receive, and the world counts one call.
\<close>

theorem already_started_not_run_counterexample:
  "isActive (State (observed StateRunning False [])) \<and>
   StartTask (bbs (scripted (allGood\<lparr>startAnswer := (False, None)\<rparr>)))
     (Guid (observed StateRunning False []))
     (cellID (scripted (allGood\<lparr>startAnswer := (False, None)\<rparr>))) 0 = ((False, None), 1) \<and>
   filter isRun (events ''result-file'' (scripted (allGood\<lparr>startAnswer := (False, None)\<rparr>))
     (observed StateRunning False []) 0) = [] \<and>
   asked ''result-file'' (scripted (allGood\<lparr>startAnswer := (False, None)\<rparr>))
     (observed StateRunning False []) 0 = [StartTaskCall ''task-guid-123'' ''cell-1''] \<and>
   world (Process ''result-file'' (scripted (allGood\<lparr>startAnswer := (False, None)\<rparr>))
     (observed StateRunning False []) \<lparr>trace = [], world = 0\<rparr>) = 1"
  by (simp add: asked_calls calls_def observed_def scripted_def allGood_def isActive_def
      events_def Process_def processActiveContainer_def startTask_def callStartTask_def emit_def)

text \<open>
  C4. For every observation of a container in an active state for which StartTask returns
  an error: Process makes no run call; it deletes the container (once) when the error is a
  state-transition error, the owned-by-a-different-cell error or the record-not-found
  error, and does not delete it for any other error. After StartTask the delegate is asked
  for the delete in the first case and for nothing in the second, and the world is the one
  StartTask left, with DeleteContainer applied to it in the first case.
\<close>

theorem active_start_error_classified:
  assumes "isActive (State c)"
    and "StartTask (bbs p) (Guid c) (cellID p) w = ((changed, Some err), w')"
  shows "filter isRun (events tag p c w) = [] \<and>
         filter isDelete (events tag p c w) =
           (if err = TaskStateTransitionError \<or> err = ErrTaskRunningOnDifferentCell
               \<or> err = ErrStoreResourceNotFound
            then [DeleteContainerCall (Guid c)] else []) \<and>
         asked tag p c w =
           StartTaskCall (Guid c) (cellID p) #
             (if err = TaskStateTransitionError \<or> err = ErrTaskRunningOnDifferentCell
                 \<or> err = ErrStoreResourceNotFound
              then [DeleteContainerCall (Guid c)] else []) \<and>
         world (Process tag p c \<lparr>trace = [], world = w\<rparr>) =
           (if err = TaskStateTransitionError \<or> err = ErrTaskRunningOnDifferentCell
               \<or> err = ErrStoreResourceNotFound
            then DeleteContainer (containerDelegate p) (Guid c) w' else w')"
proof -
  from assms(1) obtain s where s: "world s = w" "calls (trace s) = []"
    and e: "calls (events tag p c w) = calls (trace (processActiveContainer p c s))"
    and v: "world (Process tag p c \<lparr>trace = [], world = w\<rparr>) =
              world (processActiveContainer p c s)"
    by (rule Process_active)
  from assms(2) s(1)
  have a: "StartTask (bbs p) (Guid c) (cellID p) (world s) = ((changed, Some err), w')"
    by simp
  from calls_processActive_error [OF a] e s(2)
  have c: "calls (events tag p c w) =
          StartTaskCall (Guid c) (cellID p) #
             (if err = TaskStateTransitionError \<or> err = ErrTaskRunningOnDifferentCell
                 \<or> err = ErrStoreResourceNotFound
              then [DeleteContainerCall (Guid c)] else [])"
    by simp
  have r: "filter isRun (calls (events tag p c w)) = []"
    by (simp add: c)
  have d: "filter isDelete (calls (events tag p c w)) =
           (if err = TaskStateTransitionError \<or> err = ErrTaskRunningOnDifferentCell
               \<or> err = ErrStoreResourceNotFound
            then [DeleteContainerCall (Guid c)] else [])"
    by (simp add: c)
  from world_processActive_error [OF a] v
  have "world (Process tag p c \<lparr>trace = [], world = w\<rparr>) =
           (if err = TaskStateTransitionError \<or> err = ErrTaskRunningOnDifferentCell
               \<or> err = ErrStoreResourceNotFound
            then DeleteContainer (containerDelegate p) (Guid c) w' else w')"
    by simp
  with c r d show ?thesis
    by (simp add: asked_calls filter_isRun_calls [of "events tag p c w"]
        filter_isDelete_calls [of "events tag p c w"])
qed

theorem active_start_error_classified_witness:
  "isActive (State (observed StateCreated False [])) \<and>
   StartTask (bbs (scripted (allGood\<lparr>startAnswer := (False, Some ErrStoreResourceNotFound)\<rparr>)))
     (Guid (observed StateCreated False []))
     (cellID (scripted (allGood\<lparr>startAnswer := (False, Some ErrStoreResourceNotFound)\<rparr>))) 0
     = ((False, Some ErrStoreResourceNotFound), 1) \<and>
   filter isRun (events ''result-file''
     (scripted (allGood\<lparr>startAnswer := (False, Some ErrStoreResourceNotFound)\<rparr>))
     (observed StateCreated False []) 0) = [] \<and>
   filter isDelete (events ''result-file''
     (scripted (allGood\<lparr>startAnswer := (False, Some ErrStoreResourceNotFound)\<rparr>))
     (observed StateCreated False []) 0) = [DeleteContainerCall ''task-guid-123''] \<and>
   asked ''result-file''
     (scripted (allGood\<lparr>startAnswer := (False, Some ErrStoreResourceNotFound)\<rparr>))
     (observed StateCreated False []) 0 =
     [StartTaskCall ''task-guid-123'' ''cell-1'', DeleteContainerCall ''task-guid-123''] \<and>
   world (Process ''result-file''
     (scripted (allGood\<lparr>startAnswer := (False, Some ErrStoreResourceNotFound)\<rparr>))
     (observed StateCreated False []) \<lparr>trace = [], world = 0\<rparr>) = 2"
  using active_start_error_classified
    [of "observed StateCreated False []"
        "scripted (allGood\<lparr>startAnswer := (False, Some ErrStoreResourceNotFound)\<rparr>)"
        0 False ErrStoreResourceNotFound 1 "''result-file''"]
  by (simp add: observed_def scripted_def allGood_def isActive_def)

text \<open>
  C6. For every Completed container whose run result is a success (failed = false), if the
  fetch of the result file returns an error, Process calls FailTask with the reason
  "failed to fetch result", never calls CompleteTask, and still deletes the container:
  the fetch, this FailTask and the delete, in this order, are all the collaborators are
  asked, and the world is the one the fetch left with FailTask and then DeleteContainer
  applied to it.
\<close>

theorem fetch_failure_fails_task:
  assumes "State c = StateCompleted"
    and "\<not> Failed (RunResult c)"
    and "FetchContainerResultFile (containerDelegate p) (Guid c) (tagLookup (Tags c) tag) w
           = ((res, Some err), w1)"
  shows "calls (events tag p c w) =
           [FetchContainerResultFileCall (Guid c) (tagLookup (Tags c) tag),
            FailTaskCall (Guid c) ''failed to fetch result'',
            DeleteContainerCall (Guid c)] \<and>
         filter isComplete (events tag p c w) = [] \<and>
         asked tag p c w =
           [FetchContainerResultFileCall (Guid c) (tagLookup (Tags c) tag),
            FailTaskCall (Guid c) ''failed to fetch result'',
            DeleteContainerCall (Guid c)] \<and>
         world (Process tag p c \<lparr>trace = [], world = w\<rparr>) =
           DeleteContainer (containerDelegate p) (Guid c)
             (snd (FailTask (bbs p) (Guid c) ''failed to fetch result'' w1))"
proof -
  from assms(1) obtain s where s: "world s = w" "calls (trace s) = []"
    and e: "calls (events tag p c w) =
              calls (trace (completeTask tag p c s)) @ [DeleteContainerCall (Guid c)]"
    and v: "world (Process tag p c \<lparr>trace = [], world = w\<rparr>) =
              DeleteContainer (containerDelegate p) (Guid c) (world (completeTask tag p c s))"
    by (rule Process_completed)
  from assms(3) s(1)
  have a: "FetchContainerResultFile (containerDelegate p) (Guid c) (tagLookup (Tags c) tag)
          (world s) = ((res, Some err), w1)"
    by simp
  from completeTask_fetch_error [OF assms(2) a] e s(2)
  have c: "calls (events tag p c w) =
           [FetchContainerResultFileCall (Guid c) (tagLookup (Tags c) tag),
            FailTaskCall (Guid c) ''failed to fetch result'',
            DeleteContainerCall (Guid c)]"
    by (simp add: TaskCompletionReasonFailedToFetchResult_def)
  have n: "filter isComplete (calls (events tag p c w)) = []"
    by (simp add: c)
  from world_completeTask_fetch_error [OF assms(2) a] v
  have "world (Process tag p c \<lparr>trace = [], world = w\<rparr>) =
           DeleteContainer (containerDelegate p) (Guid c)
             (snd (FailTask (bbs p) (Guid c) ''failed to fetch result'' w1))"
    by (simp add: TaskCompletionReasonFailedToFetchResult_def)
  with c n show ?thesis
    by (simp add: asked_calls filter_isComplete_calls [of "events tag p c w"])
qed

theorem fetch_failure_fails_task_witness:
  "State (observed StateCompleted False []) = StateCompleted \<and>
   \<not> Failed (RunResult (observed StateCompleted False [])) \<and>
   FetchContainerResultFile
     (containerDelegate (scripted (allGood\<lparr>fetchAnswer := ([], Some (OtherError ''nope''))\<rparr>)))
     (Guid (observed StateCompleted False []))
     (tagLookup (Tags (observed StateCompleted False [])) ''result-file'') 0
       = (([], Some (OtherError ''nope'')), 1) \<and>
   calls (events ''result-file''
       (scripted (allGood\<lparr>fetchAnswer := ([], Some (OtherError ''nope''))\<rparr>))
       (observed StateCompleted False []) 0) =
     [FetchContainerResultFileCall ''task-guid-123'' ''/tmp/result'',
      FailTaskCall ''task-guid-123'' ''failed to fetch result'',
      DeleteContainerCall ''task-guid-123''] \<and>
   filter isComplete (events ''result-file''
       (scripted (allGood\<lparr>fetchAnswer := ([], Some (OtherError ''nope''))\<rparr>))
       (observed StateCompleted False []) 0) = [] \<and>
   asked ''result-file''
       (scripted (allGood\<lparr>fetchAnswer := ([], Some (OtherError ''nope''))\<rparr>))
       (observed StateCompleted False []) 0 =
     [FetchContainerResultFileCall ''task-guid-123'' ''/tmp/result'',
      FailTaskCall ''task-guid-123'' ''failed to fetch result'',
      DeleteContainerCall ''task-guid-123''] \<and>
   world (Process ''result-file''
       (scripted (allGood\<lparr>fetchAnswer := ([], Some (OtherError ''nope''))\<rparr>))
       (observed StateCompleted False []) \<lparr>trace = [], world = 0\<rparr>) = 3"
  using fetch_failure_fails_task
    [of "observed StateCompleted False []"
        "scripted (allGood\<lparr>fetchAnswer := ([], Some (OtherError ''nope''))\<rparr>)"
        "''result-file''" 0 "[]" "OtherError ''nope''" 1]
  by (simp add: observed_def scripted_def allGood_def tagLookup_def)

text \<open>
  C7. For every Completed container whose run result is a failure (failed = true), Process
  makes no fetch call, and its one CompleteTask call carries the container's guid, this
  cell's ID, failed = true, the run result's failure reason and the empty result: the
  delegate is asked for no fetch, the store is asked for this one completion, in the world
  Process started in, and the world Process leaves is built from the world this call leaves.
\<close>

theorem failed_run_completes_without_fetch:
  assumes "State c = StateCompleted"
    and "Failed (RunResult c)"
  shows "filter isFetch (events tag p c w) = [] \<and>
         filter isComplete (events tag p c w) =
           [CompleteTaskCall (Guid c) (cellID p) True (FailureReason (RunResult c)) []] \<and>
         filter isFetch (asked tag p c w) = [] \<and>
         filter isComplete (asked tag p c w) =
           [CompleteTaskCall (Guid c) (cellID p) True (FailureReason (RunResult c)) []] \<and>
         world (Process tag p c \<lparr>trace = [], world = w\<rparr>) =
           DeleteContainer (containerDelegate p) (Guid c)
             (if fst (CompleteTask (bbs p) (Guid c) (cellID p) True
                        (FailureReason (RunResult c)) [] w) = Some TaskStateTransitionError
              then snd (FailTask (bbs p) (Guid c) ''invalid state transition''
                     (snd (CompleteTask (bbs p) (Guid c) (cellID p) True
                        (FailureReason (RunResult c)) [] w)))
              else snd (CompleteTask (bbs p) (Guid c) (cellID p) True
                        (FailureReason (RunResult c)) [] w))"
proof -
  from assms(1) obtain s where s: "world s = w" "calls (trace s) = []"
    and e: "calls (events tag p c w) =
              calls (trace (completeTask tag p c s)) @ [DeleteContainerCall (Guid c)]"
    and v: "world (Process tag p c \<lparr>trace = [], world = w\<rparr>) =
              DeleteContainer (containerDelegate p) (Guid c) (world (completeTask tag p c s))"
    by (rule Process_completed)
  obtain r w1 where
    a: "CompleteTask (bbs p) (Guid c) (cellID p) True (FailureReason (RunResult c)) [] (world s)
       = (r, w1)"
    by (cases "CompleteTask (bbs p) (Guid c) (cellID p) True (FailureReason (RunResult c)) []
        (world s)")
  from completeTask_failed [OF assms(2) a] e s(2)
  have c: "calls (events tag p c w) =
           (CompleteTaskCall (Guid c) (cellID p) True (FailureReason (RunResult c)) [] #
             (if r = Some TaskStateTransitionError
              then [FailTaskCall (Guid c) TaskCompletionReasonInvalidTransition] else []))
           @ [DeleteContainerCall (Guid c)]"
    by simp
  have f: "filter isFetch (calls (events tag p c w)) = []"
    by (simp add: c)
  have k: "filter isComplete (calls (events tag p c w)) =
           [CompleteTaskCall (Guid c) (cellID p) True (FailureReason (RunResult c)) []]"
    by (simp add: c)
  from world_completeTask_failed [OF assms(2) a] v a s(1)
  have "world (Process tag p c \<lparr>trace = [], world = w\<rparr>) =
           DeleteContainer (containerDelegate p) (Guid c)
             (if fst (CompleteTask (bbs p) (Guid c) (cellID p) True
                        (FailureReason (RunResult c)) [] w) = Some TaskStateTransitionError
              then snd (FailTask (bbs p) (Guid c) ''invalid state transition''
                     (snd (CompleteTask (bbs p) (Guid c) (cellID p) True
                        (FailureReason (RunResult c)) [] w)))
              else snd (CompleteTask (bbs p) (Guid c) (cellID p) True
                        (FailureReason (RunResult c)) [] w))"
    by (simp add: TaskCompletionReasonInvalidTransition_def)
  with f k show ?thesis
    by (simp add: asked_calls filter_isFetch_calls [of "events tag p c w"]
        filter_isComplete_calls [of "events tag p c w"])
qed

theorem failed_run_completes_without_fetch_witness:
  "State (observed StateCompleted True ''boom'') = StateCompleted \<and>
   Failed (RunResult (observed StateCompleted True ''boom'')) \<and>
   filter isFetch (events ''result-file'' (scripted allGood)
       (observed StateCompleted True ''boom'') 0) = [] \<and>
   filter isComplete (events ''result-file'' (scripted allGood)
       (observed StateCompleted True ''boom'') 0) =
     [CompleteTaskCall ''task-guid-123'' ''cell-1'' True ''boom'' []] \<and>
   filter isFetch (asked ''result-file'' (scripted allGood)
       (observed StateCompleted True ''boom'') 0) = [] \<and>
   filter isComplete (asked ''result-file'' (scripted allGood)
       (observed StateCompleted True ''boom'') 0) =
     [CompleteTaskCall ''task-guid-123'' ''cell-1'' True ''boom'' []] \<and>
   world (Process ''result-file'' (scripted allGood)
       (observed StateCompleted True ''boom'') \<lparr>trace = [], world = 0\<rparr>) = 2"
  using failed_run_completes_without_fetch
    [of "observed StateCompleted True ''boom''" "''result-file''" "scripted allGood" 0]
  by (simp add: observed_def scripted_def allGood_def)

text \<open>
  C8. For every CompleteTask call that returns an error (the call is made when the run
  result is a failure, with the empty result, or when the fetch succeeded, with the fetched
  result): if the error is a state-transition error, Process then calls FailTask with the
  reason "invalid state transition"; for every other error it makes no further store call.
  The store is asked for just these calls, and the world Process leaves is the one
  CompleteTask left, with FailTask applied to it in the first case only, and then the
  delegate's DeleteContainer.
\<close>

theorem complete_error_classified:
  assumes "State c = StateCompleted"
    and "if Failed (RunResult c) then res = [] \<and> w1 = w
         else FetchContainerResultFile (containerDelegate p) (Guid c)
                (tagLookup (Tags c) tag) w = ((res, None), w1)"
    and "CompleteTask (bbs p) (Guid c) (cellID p) (Failed (RunResult c))
           (FailureReason (RunResult c)) res w1 = (Some err, w2)"
  shows "filter isStoreCall (events tag p c w) =
           CompleteTaskCall (Guid c) (cellID p) (Failed (RunResult c))
               (FailureReason (RunResult c)) res #
             (if err = TaskStateTransitionError
              then [FailTaskCall (Guid c) ''invalid state transition''] else []) \<and>
         filter isStoreCall (asked tag p c w) =
           CompleteTaskCall (Guid c) (cellID p) (Failed (RunResult c))
               (FailureReason (RunResult c)) res #
             (if err = TaskStateTransitionError
              then [FailTaskCall (Guid c) ''invalid state transition''] else []) \<and>
         world (Process tag p c \<lparr>trace = [], world = w\<rparr>) =
           DeleteContainer (containerDelegate p) (Guid c)
             (if err = TaskStateTransitionError
              then snd (FailTask (bbs p) (Guid c) ''invalid state transition'' w2)
              else w2)"
proof -
  from assms(1) obtain s where s: "world s = w" "calls (trace s) = []"
    and e: "calls (events tag p c w) =
              calls (trace (completeTask tag p c s)) @ [DeleteContainerCall (Guid c)]"
    and v: "world (Process tag p c \<lparr>trace = [], world = w\<rparr>) =
              DeleteContainer (containerDelegate p) (Guid c) (world (completeTask tag p c s))"
    by (rule Process_completed)
  have "filter isStoreCall (calls (events tag p c w)) =
           CompleteTaskCall (Guid c) (cellID p) (Failed (RunResult c))
               (FailureReason (RunResult c)) res #
             (if err = TaskStateTransitionError
              then [FailTaskCall (Guid c) ''invalid state transition''] else []) \<and>
        world (completeTask tag p c s) =
             (if err = TaskStateTransitionError
              then snd (FailTask (bbs p) (Guid c) ''invalid state transition'' w2)
              else w2)"
  proof (cases "Failed (RunResult c)")
    case True
    with assms(2,3) s(1)
    have a: "CompleteTask (bbs p) (Guid c) (cellID p) True (FailureReason (RunResult c)) []
            (world s) = (Some err, w2)"
      by simp
    from completeTask_failed [OF True a] world_completeTask_failed [OF True a]
      e s(2) True assms(2)
    show ?thesis
      by (simp add: TaskCompletionReasonInvalidTransition_def)
  next
    case False
    with assms(2) s(1)
    have f: "FetchContainerResultFile (containerDelegate p) (Guid c) (tagLookup (Tags c) tag)
               (world s) = ((res, None), w1)"
      by simp
    from False assms(3)
    have a: "CompleteTask (bbs p) (Guid c) (cellID p) False (FailureReason (RunResult c)) res w1
            = (Some err, w2)"
      by simp
    from completeTask_fetched [OF False f a] world_completeTask_fetched [OF False f a]
      e s(2) False
    show ?thesis
      by (simp add: TaskCompletionReasonInvalidTransition_def)
  qed
  with v show ?thesis
    by (simp add: asked_calls filter_isStoreCall_calls [of "events tag p c w"])
qed

theorem complete_error_classified_witness:
  "State (observed StateCompleted False []) = StateCompleted \<and>
   FetchContainerResultFile
     (containerDelegate (scripted (allGood\<lparr>completeAnswer := Some TaskStateTransitionError\<rparr>)))
     (Guid (observed StateCompleted False []))
     (tagLookup (Tags (observed StateCompleted False [])) ''result-file'') 0
       = ((''42'', None), 1) \<and>
   CompleteTask (bbs (scripted (allGood\<lparr>completeAnswer := Some TaskStateTransitionError\<rparr>)))
     (Guid (observed StateCompleted False []))
     (cellID (scripted (allGood\<lparr>completeAnswer := Some TaskStateTransitionError\<rparr>)))
     False [] ''42'' 1 = (Some TaskStateTransitionError, 2) \<and>
   filter isStoreCall (events ''result-file''
       (scripted (allGood\<lparr>completeAnswer := Some TaskStateTransitionError\<rparr>))
       (observed StateCompleted False []) 0) =
     [CompleteTaskCall ''task-guid-123'' ''cell-1'' False [] ''42'',
      FailTaskCall ''task-guid-123'' ''invalid state transition''] \<and>
   filter isStoreCall (asked ''result-file''
       (scripted (allGood\<lparr>completeAnswer := Some TaskStateTransitionError\<rparr>))
       (observed StateCompleted False []) 0) =
     [CompleteTaskCall ''task-guid-123'' ''cell-1'' False [] ''42'',
      FailTaskCall ''task-guid-123'' ''invalid state transition''] \<and>
   world (Process ''result-file''
       (scripted (allGood\<lparr>completeAnswer := Some TaskStateTransitionError\<rparr>))
       (observed StateCompleted False []) \<lparr>trace = [], world = 0\<rparr>) = 4"
  using complete_error_classified
    [of "observed StateCompleted False []" "''42''" 1 0
        "scripted (allGood\<lparr>completeAnswer := Some TaskStateTransitionError\<rparr>)"
        "''result-file''" TaskStateTransitionError 2]
  by (simp add: observed_def scripted_def allGood_def tagLookup_def)

text \<open>
  C10. For every call of Process with a container whose state is none of Reserved,
  Initializing, Created, Running and Completed, Process makes no call on the store and no
  call on the container delegate: it only logs, and leaves the world as it found it.
\<close>

theorem other_state_is_noop:
  assumes "State c \<notin> {StateReserved, StateInitializing, StateCreated, StateRunning,
             StateCompleted}"
  shows "calls (events tag p c w) = [] \<and>
         world (Process tag p c \<lparr>trace = [], world = w\<rparr>) = w"
proof (cases "State c")
  case (StateOther x)
  then show ?thesis
    by (simp add: events_def Process_def)
qed (use assms in simp_all)

theorem other_state_is_noop_witness:
  "State (observed (StateOther []) False [])
     \<notin> {StateReserved, StateInitializing, StateCreated, StateRunning, StateCompleted} \<and>
   calls (events ''result-file'' (scripted allGood) (observed (StateOther []) False []) 0) = [] \<and>
   world (Process ''result-file'' (scripted allGood) (observed (StateOther []) False [])
     \<lparr>trace = [], world = 0\<rparr>) = 0"
  using other_state_is_noop
    [of "observed (StateOther []) False []" "''result-file''" "scripted allGood" 0]
  by (simp add: observed_def)


section \<open>Properties of the Task Scheduler\<close>

lemmas scheduler_defs =
  attempt_def admitTask_def allocate_def claim_def initialize_def delete_def

lemmas fake_defs = fakeScheduler_def freshFake_def stagingTask_def

subsection \<open>The scenarios of the test that the attempt meets\<close>

text \<open>"but initializing the container fails": the task stays claimed, the container is deleted.\<close>

lemma test_initialize_fails:
  "claimedTasks (after (attempt ''result-file'' (fakeScheduler ''my-stack'')
      (stagingTask ''my-stack'')
      (freshFake\<lparr>initializeErr := Some (OtherError ''Can't initialize'')\<rparr>))) = [''task-guid-123'']"
  "deletedContainers (after (attempt ''result-file'' (fakeScheduler ''my-stack'')
      (stagingTask ''my-stack'')
      (freshFake\<lparr>initializeErr := Some (OtherError ''Can't initialize'')\<rparr>))) = [''task-guid-123'']"
  by (simp_all add: scheduler_defs fake_defs)

text \<open>"but claiming the task fails": the allocation is deleted on the executor.\<close>

lemma test_claim_fails:
  "deletedContainers (after (attempt ''result-file'' (fakeScheduler ''my-stack'')
      (stagingTask ''my-stack'')
      (freshFake\<lparr>claimTaskErr := Some (OtherError ''data store went away.'')\<rparr>))) = [''task-guid-123'']"
  "claimedTasks (after (attempt ''result-file'' (fakeScheduler ''my-stack'')
      (stagingTask ''my-stack'')
      (freshFake\<lparr>claimTaskErr := Some (OtherError ''data store went away.'')\<rparr>))) = []"
  by (simp_all add: scheduler_defs fake_defs)

text \<open>
  "when reserving the container fails": the allocation request is made, and the task is not
  marked claimed.
\<close>

lemma test_allocate_fails:
  "map isStoreCalled (made (attempt ''result-file'' (fakeScheduler ''my-stack'')
      (stagingTask ''my-stack'')
      (freshFake\<lparr>allocateErr := Some (OtherError ''Something went wrong'')\<rparr>))) = [False]"
  "claimedTasks (after (attempt ''result-file'' (fakeScheduler ''my-stack'')
      (stagingTask ''my-stack'')
      (freshFake\<lparr>allocateErr := Some (OtherError ''Something went wrong'')\<rparr>))) = []"
  by (simp_all add: scheduler_defs fake_defs)

text \<open>"when the task has the wrong stack": the task is ignored.\<close>

lemma test_wrong_stack:
  "claimedTasks (after (attempt ''result-file'' (fakeScheduler ''my-stack'')
      (stagingTask ''asd;oubhasdfbuvasfb'') freshFake)) = []"
  by (simp add: scheduler_defs fake_defs)

subsection \<open>The claims\<close>

text \<open>
  C5. For every admission attempt in which allocate succeeds and the claim that follows
  returns an error, of any kind, the scheduler makes exactly one delete-container call, for
  the task's guid, and its only call against the store is the claim that failed: the world
  it leaves is the one the failed claim left with the delete applied to it, so the task is
  marked neither claimed nor started by this cell.
\<close>

theorem claim_failure_rolls_back:
  assumes "Stack task = stack sch"
    and "AllocateContainer (client sch) (TaskGuid task)
           \<lparr>ReqMemoryMB = MemoryMB task, ReqDiskMB = DiskMB task,
            ReqCpuPercent = CpuPercent task, ReqLog = Log task\<rparr>
           [(tag, ResultFile task)] w = ((container, None), w1)"
    and "ClaimTask (schedulerBBS sch) (TaskGuid task) (schedulerCellID sch) w1
           = (Some err, w2)"
  shows "filter isDeleteCalled (made (attempt tag sch task w)) =
           [DeleteContainerCalled (TaskGuid task)]
         \<and> filter isStoreCalled (made (attempt tag sch task w)) =
             [ClaimTaskCalled (TaskGuid task) (schedulerCellID sch)]
         \<and> after (attempt tag sch task w) =
             snd (ClientDeleteContainer (client sch) (TaskGuid task) w2)"
  using assms
  by (simp add: scheduler_defs)

theorem claim_failure_rolls_back_witness:
  "Stack (stagingTask ''my-stack'') = stack (fakeScheduler ''my-stack'') \<and>
   filter isDeleteCalled (made (attempt ''result-file'' (fakeScheduler ''my-stack'')
       (stagingTask ''my-stack'')
       (freshFake\<lparr>claimTaskErr := Some (OtherError ''data store went away.'')\<rparr>))) =
     [DeleteContainerCalled ''task-guid-123''] \<and>
   filter isStoreCalled (made (attempt ''result-file'' (fakeScheduler ''my-stack'')
       (stagingTask ''my-stack'')
       (freshFake\<lparr>claimTaskErr := Some (OtherError ''data store went away.'')\<rparr>))) =
     [ClaimTaskCalled ''task-guid-123'' ''cell-1''] \<and>
   claimedTasks (after (attempt ''result-file'' (fakeScheduler ''my-stack'')
       (stagingTask ''my-stack'')
       (freshFake\<lparr>claimTaskErr := Some (OtherError ''data store went away.'')\<rparr>))) = [] \<and>
   deletedContainers (after (attempt ''result-file'' (fakeScheduler ''my-stack'')
       (stagingTask ''my-stack'')
       (freshFake\<lparr>claimTaskErr := Some (OtherError ''data store went away.'')\<rparr>))) =
     [''task-guid-123'']"
  using claim_failure_rolls_back
    [of "stagingTask ''my-stack''" "fakeScheduler ''my-stack''" "''result-file''"
        "freshFake\<lparr>claimTaskErr := Some (OtherError ''data store went away.'')\<rparr>"
        "\<lparr>ExecutorGuid = ''the-executor-guid'', ContainerGuid = ''task-guid-123''\<rparr>"
        "freshFake\<lparr>claimTaskErr := Some (OtherError ''data store went away.'')\<rparr>"
        "OtherError ''data store went away.''"
        "freshFake\<lparr>claimTaskErr := Some (OtherError ''data store went away.'')\<rparr>"]
  by (simp add: fake_defs)

text \<open>
  C9. For every desired task whose placement tag (its stack) differs from the scheduler's own,
  the scheduler makes no call at all: no claim and no other store call, no allocation, and
  the world is left as it was.
\<close>

theorem wrong_stack_is_ignored:
  assumes "Stack task \<noteq> stack sch"
  shows "made (attempt tag sch task w) = [] \<and> after (attempt tag sch task w) = w"
  using assms
  by (simp add: attempt_def admitTask_def)

theorem wrong_stack_is_ignored_witness:
  "Stack (stagingTask ''asd;oubhasdfbuvasfb'') \<noteq> stack (fakeScheduler ''my-stack'') \<and>
   made (attempt ''result-file'' (fakeScheduler ''my-stack'')
     (stagingTask ''asd;oubhasdfbuvasfb'') freshFake) = [] \<and>
   after (attempt ''result-file'' (fakeScheduler ''my-stack'')
     (stagingTask ''asd;oubhasdfbuvasfb'') freshFake) = freshFake"
  using wrong_stack_is_ignored
    [of "stagingTask ''asd;oubhasdfbuvasfb''" "fakeScheduler ''my-stack''" "''result-file''"
        freshFake]
  by (simp add: fake_defs)

end
